theory Spec2Isabelle
  imports Main "HOL-Library.Char_ord" "HOL-Library.List_Lexorder"
begin

section \<open>importscanner: the import classifier of \<^verbatim>\<open>importscanner/cli.py\<close>\<close>

text \<open>
  The program scans a directory for Python files, collects the top-level module names
  they import and sorts the names into standard library, third party and local.
  The collaborators it only calls (the \<^verbatim>\<open>stdlib_list\<close> table, \<^verbatim>\<open>importlib.metadata\<close>,
  the file system, \<^verbatim>\<open>ast.parse\<close>) are fields of an environment record; every function
  of \<^verbatim>\<open>cli.py\<close> is a HOL function of that environment.

  A Python string is the list of the bytes of its UTF-8 encoding. Python compares strings
  by code point, which is the lexicographic order of these bytes, and the characters the
  program looks for (the dot, the slash, the suffix \<^verbatim>\<open>.py\<close>) are ASCII, so they occur in
  the bytes exactly where they occur in the string.
\<close>

subsection \<open>Exceptions and the log\<close>

text \<open>
  An exception is its class and its message. Each class below stands for the Python
  class and its subclasses, as an \<^verbatim>\<open>except\<close> clause sees them; \<open>OtherException\<close> is any
  other subclass of \<^verbatim>\<open>Exception\<close>. None of the classes named here is a subclass of
  another one named here.
\<close>

datatype exn_class =
    SyntaxError | UnicodeDecodeError | UnicodeEncodeError | OSError | PackageNotFoundError
  | RecursionError | OtherException

datatype exn = Exn (cls: exn_class) (msg: string)

datatype level = DEBUG | INFO | WARNING | ERROR

text \<open>
  One constructor per logging call of \<^verbatim>\<open>cli.py\<close>, carrying the values the
  format string interpolates.
\<close>

datatype message =
    StdlibCheckFailed string exn
  | InstalledCheckError string exn
  | Skipping string exn
  | ScanningDirectory string
  | TotalUniqueImports nat
  | SavingRequirements
  | CouldNotGetVersion string exn
  | RequirementsSaved
  | FailedToSave exn

type_synonym log = "(level \<times> message) list"

subsection \<open>The syntax tree of a source file\<close>

text \<open>
  The nodes of \<^verbatim>\<open>ast\<close> that the extractor looks at: \<^verbatim>\<open>ast.Import(names)\<close>,
  \<^verbatim>\<open>ast.ImportFrom(module, names, level)\<close>, and every other node, with its children
  (the module itself, function and class bodies, conditionals, and so on).
\<close>

datatype import_alias = Alias (alias_name: string) (asname: "string option")

datatype node =
    Import "import_alias list"
  | ImportFrom "string option" "import_alias list" nat
  | Other "node list"

subsection \<open>The environment\<close>

record env =
  version_info :: "nat \<times> nat"
  stdlib_list :: "nat \<times> nat \<Rightarrow> exn + string list"
  get_all_installed_top_level_modules :: "string list"
  metadata_version :: "string \<Rightarrow> exn + string"
  read_parse :: "string \<Rightarrow> exn + node"
  os_walk :: "string \<Rightarrow> (string \<times> string list \<times> string list) list"
  open_requirements :: "exn option"
  write_error :: "string \<Rightarrow> string \<Rightarrow> exn option"
  close_error :: "string \<Rightarrow> exn option"
  unicode_lower :: "string \<Rightarrow> string"

text \<open>
  \<^item> \<open>version_info\<close>: \<^verbatim>\<open>sys.version_info\<close>, major and minor.
  \<^item> \<open>stdlib_list\<close>: \<^verbatim>\<open>stdlib_list(version_str)\<close>, which raises for a version it has no table for.
  \<^item> \<open>get_all_installed_top_level_modules\<close>: the value of the cached function of that
    name, the top-level names of the installed distributions.
  \<^item> \<open>metadata_version\<close>: \<^verbatim>\<open>importlib.metadata.version\<close>; the version is the text an
    f-string prints for it.
  \<^item> \<open>read_parse\<close>: opening a file as UTF-8, reading it and \<^verbatim>\<open>ast.parse\<close>.
  \<^item> \<open>os_walk\<close>: the triples \<^verbatim>\<open>os.walk\<close> yields.
  \<^item> \<open>open_requirements\<close>: the exception of \<^verbatim>\<open>open("requirements.txt", "w")\<close>, if any.
  \<^item> \<open>write_error\<close>: the exception of \<^verbatim>\<open>f.write(s)\<close>, if any, given the text written so
    far and \<open>s\<close> (a string the encoding of the file cannot represent, a full device).
  \<^item> \<open>close_error\<close>: the exception of closing the file at the end of the \<^verbatim>\<open>with\<close> block,
    if any, given the text written.
  \<^item> \<open>unicode_lower\<close>: \<^verbatim>\<open>str.lower\<close> on the strings that have a character outside ASCII.
\<close>

subsection \<open>Strings\<close>

text \<open>
  \<^verbatim>\<open>s.lower()\<close>. On a string of ASCII characters it maps \<^verbatim>\<open>A\<close> to \<^verbatim>\<open>Z\<close> to \<^verbatim>\<open>a\<close> to \<^verbatim>\<open>z\<close>
  and nothing else. On any other string it is the lowercase mapping of Unicode, which
  depends on the Python runtime and is not character by character: it is the
  environment's \<open>unicode_lower\<close>.
\<close>

definition ascii_lower_char :: "char \<Rightarrow> char" where
  "ascii_lower_char c =
     (let n = (of_char c :: nat) in if 65 \<le> n \<and> n \<le> 90 then char_of (n + 32) else c)"

definition is_ascii :: "string \<Rightarrow> bool" where
  "is_ascii s = list_all (\<lambda>c. (of_char c :: nat) < 128) s"

definition lower :: "env \<Rightarrow> string \<Rightarrow> string" where
  "lower env s = (if is_ascii s then map ascii_lower_char s else unicode_lower env s)"

text \<open>\<^verbatim>\<open>s.split(sep)\<close> for a separator of one character.\<close>

fun split_on :: "char \<Rightarrow> string \<Rightarrow> string list" where
  "split_on sep [] = [[]]"
| "split_on sep (c # cs) =
     (if c = sep then [] # split_on sep cs
      else (case split_on sep cs of [] \<Rightarrow> [[c]] | w # ws \<Rightarrow> (c # w) # ws))"

text \<open>\<^verbatim>\<open>s.split(".")[0]\<close>; the list is never empty, so the index never fails.\<close>

definition first_segment :: "string \<Rightarrow> string" where
  "first_segment s = (case split_on CHR ''.'' s of [] \<Rightarrow> [] | w # ws \<Rightarrow> w)"

definition endswith :: "string \<Rightarrow> string \<Rightarrow> bool" where
  "endswith s suf = (length suf \<le> length s \<and> drop (length s - length suf) s = suf)"

text \<open>\<^verbatim>\<open>os.path.join(a, b)\<close> on POSIX.\<close>

definition path_join :: "string \<Rightarrow> string \<Rightarrow> string" where
  "path_join a b =
     (if b \<noteq> [] \<and> hd b = CHR ''/'' then b
      else if a = [] \<or> last a = CHR ''/'' then a @ b
      else a @ ''/'' @ b)"

subsection \<open>Detection logic\<close>

definition SUBMODULE_TO_PACKAGE :: "string \<rightharpoonup> string" where
  "SUBMODULE_TO_PACKAGE = map_of [(''pkg_resources'', ''setuptools'')]"

definition is_stdlib :: "env \<Rightarrow> string \<Rightarrow> bool \<times> log" where
  "is_stdlib env module_name =
     (case stdlib_list env (version_info env) of
        Inr names \<Rightarrow> (module_name \<in> set names, [])
      | Inl e \<Rightarrow> (False, [(WARNING, StdlibCheckFailed module_name e)]))"

text \<open>\<^verbatim>\<open>SUBMODULE_TO_PACKAGE.get(mod, mod)\<close>.\<close>

definition resolve_alias :: "string \<Rightarrow> string" where
  "resolve_alias m = (case SUBMODULE_TO_PACKAGE m of Some p \<Rightarrow> p | None \<Rightarrow> m)"

text \<open>The \<^verbatim>\<open>try\<close> block of \<^verbatim>\<open>is_installed_package\<close>: its value, or the exception it raises.\<close>

definition installed_lookup :: "env \<Rightarrow> string \<Rightarrow> exn + bool" where
  "installed_lookup env module_name =
     (let m = lower env module_name;
          installed = set (map (lower env) (get_all_installed_top_level_modules env))
      in if m \<in> installed then Inr True
         else (let actual_name = resolve_alias m
               in case metadata_version env actual_name of
                    Inl e \<Rightarrow> Inl e
                  | Inr v \<Rightarrow> Inr True))"

text \<open>
  The function with its two handlers. It is wrapped in \<^verbatim>\<open>lru_cache\<close>: a repeated call
  returns the same value without running the body, so without logging again. The
  definition is the body, which is what a first call with a name runs.
\<close>

definition is_installed_package :: "env \<Rightarrow> string \<Rightarrow> bool \<times> log" where
  "is_installed_package env module_name =
     (case installed_lookup env module_name of
        Inr b \<Rightarrow> (b, [])
      | Inl e \<Rightarrow>
          if cls e = PackageNotFoundError then (False, [])
          else (False, [(WARNING, InstalledCheckError module_name e)]))"

definition is_local_module :: "env \<Rightarrow> string \<Rightarrow> bool" where
  "is_local_module env module_name =
     (\<not> fst (is_stdlib env module_name) \<and> \<not> fst (is_installed_package env module_name))"

subsection \<open>Classification\<close>

text \<open>
  The four branches of the conditional in the loop of \<^verbatim>\<open>classify_imports\<close>, in the
  order of the source; \<open>Fallback\<close> is the final \<^verbatim>\<open>else\<close>.
\<close>

datatype branch = ToStdlib | ToThirdParty | ToLocal | Fallback

definition classify_branch :: "env \<Rightarrow> string \<Rightarrow> branch" where
  "classify_branch env module_name =
     (if fst (is_stdlib env module_name) then ToStdlib
      else if fst (is_installed_package env module_name) then ToThirdParty
      else if is_local_module env module_name then ToLocal
      else Fallback)"

fun classify_add ::
  "branch \<Rightarrow> string \<Rightarrow> string set \<times> string set \<times> string set
     \<Rightarrow> string set \<times> string set \<times> string set" where
  "classify_add ToStdlib m (stdlib, third_party, local) = (insert m stdlib, third_party, local)"
| "classify_add ToThirdParty m (stdlib, third_party, local) = (stdlib, insert m third_party, local)"
| "classify_add ToLocal m (stdlib, third_party, local) = (stdlib, third_party, insert m local)"
| "classify_add Fallback m (stdlib, third_party, local) = (stdlib, insert m third_party, local)"

text \<open>
  The loop \<^verbatim>\<open>for module in imports\<close>, over the names in the order the set yields them,
  which Python leaves open: the theorems hold for every order. The function returns the
  three sets; it reads the boolean answers of the oracles only.
\<close>

fun classify_loop ::
  "env \<Rightarrow> string list \<Rightarrow> string set \<times> string set \<times> string set
     \<Rightarrow> string set \<times> string set \<times> string set" where
  "classify_loop env [] acc = acc"
| "classify_loop env (m # ms) acc =
     classify_loop env ms (classify_add (classify_branch env m) m acc)"

definition classify_imports ::
  "env \<Rightarrow> string list \<Rightarrow> string set \<times> string set \<times> string set" where
  "classify_imports env imports = classify_loop env imports ({}, {}, {})"

subsection \<open>File parsing\<close>

text \<open>
  \<^verbatim>\<open>ast.walk(tree)\<close> yields the node and every descendant of it, in an order its
  documentation leaves open; the extractor adds to a set, so the order has no effect.
  The \<^verbatim>\<open>alias\<close> children of an import statement are fields of the statement here.
\<close>

fun walk :: "node \<Rightarrow> node list" where
  "walk (Import names) = [Import names]"
| "walk (ImportFrom module_part names level) = [ImportFrom module_part names level]"
| "walk (Other children) = Other children # concat (map walk children)"

text \<open>
  The body of the loop over the nodes. \<^verbatim>\<open>if node.module\<close> is false for \<^verbatim>\<open>None\<close> and
  for the empty string; \<open>level\<close> is not read.
\<close>

fun add_imports :: "node \<Rightarrow> string set \<Rightarrow> string set" where
  "add_imports (Import names) imports =
     fold (\<lambda>a acc. insert (first_segment (alias_name a)) acc) names imports"
| "add_imports (ImportFrom module_part names level) imports =
     (case module_part of
        None \<Rightarrow> imports
      | Some m \<Rightarrow> if m = [] then imports else insert (first_segment m) imports)"
| "add_imports (Other children) imports = imports"

text \<open>
  The result is the set of names and what was logged, or the exception that leaves the
  function: the handler catches \<^verbatim>\<open>SyntaxError\<close>, \<^verbatim>\<open>UnicodeDecodeError\<close> and \<^verbatim>\<open>OSError\<close> only.
\<close>

definition extract_imports_from_file :: "env \<Rightarrow> string \<Rightarrow> exn + string set \<times> log" where
  "extract_imports_from_file env file_path =
     (case read_parse env file_path of
        Inl e \<Rightarrow>
          if cls e = SyntaxError \<or> cls e = UnicodeDecodeError \<or> cls e = OSError
          then Inr ({}, [(ERROR, Skipping file_path e)])
          else Inl e
      | Inr tree \<Rightarrow> Inr (fold add_imports (walk tree) {}, []))"

subsection \<open>Directory scan\<close>

text \<open>The inner loop \<^verbatim>\<open>for file in files\<close>, on the set collected so far and the log.\<close>

fun scan_files ::
  "env \<Rightarrow> string \<Rightarrow> string list \<Rightarrow> string set \<times> log \<Rightarrow> exn + string set \<times> log" where
  "scan_files env root [] st = Inr st"
| "scan_files env root (file # files) (all_imports, lg) =
     (if endswith file ''.py''
      then (case extract_imports_from_file env (path_join root file) of
              Inl e \<Rightarrow> Inl e
            | Inr (imports, lg') \<Rightarrow> scan_files env root files (all_imports \<union> imports, lg @ lg'))
      else scan_files env root files (all_imports, lg))"

text \<open>The outer loop \<^verbatim>\<open>for root, _, files in os.walk(path)\<close>.\<close>

fun scan_walk ::
  "env \<Rightarrow> (string \<times> string list \<times> string list) list \<Rightarrow> string set \<times> log
     \<Rightarrow> exn + string set \<times> log" where
  "scan_walk env [] st = Inr st"
| "scan_walk env ((root, dirs, files) # rest) st =
     (case scan_files env root files st of
        Inl e \<Rightarrow> Inl e
      | Inr st' \<Rightarrow> scan_walk env rest st')"

definition scan_directory :: "env \<Rightarrow> string \<Rightarrow> exn + string set \<times> log" where
  "scan_directory env path =
     (case scan_walk env (os_walk env path) ({}, [(INFO, ScanningDirectory path)]) of
        Inl e \<Rightarrow> Inl e
      | Inr (all_imports, lg) \<Rightarrow>
          Inr (all_imports, lg @ [(DEBUG, TotalUniqueImports (card all_imports))]))"

subsection \<open>Manifest\<close>

text \<open>\<^verbatim>\<open>f.write(s)\<close> on a file holding the text \<open>f\<close>: the new text, or the exception.\<close>

definition f_write :: "env \<Rightarrow> string \<Rightarrow> string \<Rightarrow> exn + string" where
  "f_write env f s = (case write_error env f s of Some e \<Rightarrow> Inl e | None \<Rightarrow> Inr (f @ s))"

text \<open>
  The loop \<^verbatim>\<open>for pkg in sorted(third_party)\<close> on the text written to the file so far
  and the log. The inner \<^verbatim>\<open>try\<close> holds the version lookup and the write of the pinned
  line; its handler catches every exception of either, logs a warning and writes the bare
  name. An exception of that last write leaves the loop: the result then carries it,
  with the text and the log at that point.
\<close>

fun write_requirements ::
  "env \<Rightarrow> string list \<Rightarrow> string \<times> log \<Rightarrow> exn option \<times> string \<times> log" where
  "write_requirements env [] (f, lg) = (None, f, lg)"
| "write_requirements env (pkg # pkgs) (f, lg) =
     (case (case metadata_version env pkg of
              Inl e \<Rightarrow> Inl e
            | Inr version \<Rightarrow> f_write env f (pkg @ ''=='' @ version @ [CHR 0x0A])) of
        Inr f' \<Rightarrow> write_requirements env pkgs (f', lg)
      | Inl e \<Rightarrow>
          (case f_write env f (pkg @ [CHR 0x0A]) of
             Inr f' \<Rightarrow>
               write_requirements env pkgs (f', lg @ [(WARNING, CouldNotGetVersion pkg e)])
           | Inl e' \<Rightarrow> (Some e', f, lg @ [(WARNING, CouldNotGetVersion pkg e)])))"

text \<open>
  The result is the text the writes put into \<^verbatim>\<open>requirements.txt\<close> (\<open>None\<close> when the file
  could not be opened) and the log. \<^verbatim>\<open>sorted\<close> on a set of strings is the list of its
  elements in ascending order. The outer handler logs the exception of \<^verbatim>\<open>open\<close>, of a
  write that left the loop, or of closing the file; the \<^verbatim>\<open>with\<close> block closes the file
  also when a write has raised, and an exception of that close replaces the other.
\<close>

definition save_requirements :: "env \<Rightarrow> string set \<Rightarrow> string option \<times> log" where
  "save_requirements env third_party =
     (case open_requirements env of
        Some e \<Rightarrow> (None, [(INFO, SavingRequirements), (ERROR, FailedToSave e)])
      | None \<Rightarrow>
          (case write_requirements env (sorted_list_of_set third_party)
                  ([], [(INFO, SavingRequirements)]) of
             (Some e, f, lg) \<Rightarrow>
               (Some f, lg @ [(ERROR, FailedToSave
                                 (case close_error env f of Some e' \<Rightarrow> e' | None \<Rightarrow> e))])
           | (None, f, lg) \<Rightarrow>
               (case close_error env f of
                  Some e \<Rightarrow> (Some f, lg @ [(ERROR, FailedToSave e)])
                | None \<Rightarrow> (Some f, lg @ [(INFO, RequirementsSaved)]))))"

subsection \<open>Notions of the specification\<close>

text \<open>A version lookup succeeds when it returns a version rather than raising.\<close>

definition version_lookup_succeeds :: "env \<Rightarrow> string \<Rightarrow> bool" where
  "version_lookup_succeeds env n =
     (case metadata_version env n of Inr v \<Rightarrow> True | Inl e \<Rightarrow> False)"

text \<open>A manifest entry: \<^verbatim>\<open>name==version\<close>, or the bare name when the lookup fails.\<close>

definition manifest_line :: "env \<Rightarrow> string \<Rightarrow> string" where
  "manifest_line env pkg =
     (case metadata_version env pkg of Inr version \<Rightarrow> pkg @ ''=='' @ version | Inl e \<Rightarrow> pkg)"

text \<open>The warning the emitter logs for a package: none when the version lookup succeeds.\<close>

definition version_warning :: "env \<Rightarrow> string \<Rightarrow> log" where
  "version_warning env pkg =
     (case metadata_version env pkg of
        Inr v \<Rightarrow> []
      | Inl e \<Rightarrow> [(WARNING, CouldNotGetVersion pkg e)])"

text \<open>A text file made of the given lines, each ended by a newline.\<close>

definition unlines :: "string list \<Rightarrow> string" where
  "unlines ls = concat (map (\<lambda>l. l @ [CHR 0x0A]) ls)"

text \<open>The names a single node contributes.\<close>

definition names_of_node :: "node \<Rightarrow> string set" where
  "names_of_node n =
     (case n of
        Import names \<Rightarrow> {first_segment (alias_name a) | a. a \<in> set names}
      | ImportFrom module_part names level \<Rightarrow>
          (case module_part of None \<Rightarrow> {} | Some m \<Rightarrow> if m = [] then {} else {first_segment m})
      | Other children \<Rightarrow> {})"

text \<open>The source files of a tree, in the order the scan visits them.\<close>

fun walk_files :: "(string \<times> string list \<times> string list) list \<Rightarrow> string list" where
  "walk_files [] = []"
| "walk_files ((root, dirs, files) # rest) =
     map (path_join root) (filter (\<lambda>file. endswith file ''.py'') files) @ walk_files rest"

definition py_files :: "env \<Rightarrow> string \<Rightarrow> string list" where
  "py_files env path = walk_files (os_walk env path)"

text \<open>What one file contributes to the scan: its names and its diagnostics.\<close>

definition file_names :: "env \<Rightarrow> string \<Rightarrow> string set" where
  "file_names env p =
     (case extract_imports_from_file env p of Inr (names, lg) \<Rightarrow> names | Inl e \<Rightarrow> {})"

definition file_log :: "env \<Rightarrow> string \<Rightarrow> log" where
  "file_log env p =
     (case extract_imports_from_file env p of Inr (names, lg) \<Rightarrow> lg | Inl e \<Rightarrow> [])"

text \<open>The exception is one the handler of the extractor catches.\<close>

definition caught_by_extractor :: "exn \<Rightarrow> bool" where
  "caught_by_extractor e =
     (cls e = SyntaxError \<or> cls e = UnicodeDecodeError \<or> cls e = OSError)"

subsection \<open>Example environments\<close>

text \<open>
  The names \<^verbatim>\<open>ecole\<close> with an acute accent on its first letter, in upper and in lower
  case (the letter is two bytes in UTF-8), and a lowercase mapping that knows this letter
  and the ASCII ones.
\<close>

definition Ecole :: string where
  "Ecole = CHR 0xC3 # CHR 0x89 # ''cole''"

definition ecole :: string where
  "ecole = CHR 0xC3 # CHR 0xA9 # ''cole''"

fun example_unicode_lower :: "string \<Rightarrow> string" where
  "example_unicode_lower (c # d # cs) =
     (if c = CHR 0xC3 \<and> d = CHR 0x89 then CHR 0xC3 # CHR 0xA9 # example_unicode_lower cs
      else ascii_lower_char c # example_unicode_lower (d # cs))"
| "example_unicode_lower [c] = [ascii_lower_char c]"
| "example_unicode_lower [] = []"

text \<open>
  Python 3.11 with a two-name standard library table; \<^verbatim>\<open>requests\<close>, \<^verbatim>\<open>numpy\<close> and the
  accented name in the installed index; \<^verbatim>\<open>click 8.1.3\<close> and \<^verbatim>\<open>setuptools 65.5.0\<close> known to
  the metadata; one directory with four source files (two of them unreadable) and a text
  file; a \<^verbatim>\<open>requirements.txt\<close> that can be opened, written and closed.
\<close>

definition example_tree :: node where
  "example_tree = Other
     [Import [Alias ''os'' None, Alias ''foo.bar.baz'' (Some ''fb'')],
      ImportFrom (Some ''requests.adapters'') [Alias ''HTTPAdapter'' None] 0,
      ImportFrom None [Alias ''utils'' None] 1,
      Other [ImportFrom (Some ''utils.text'') [Alias ''x'' None] 1]]"

definition example_env :: env where
  "example_env =
     \<lparr> version_info = (3, 11),
       stdlib_list = (\<lambda>v. if v = (3, 11) then Inr [''os'', ''sys'']
                           else Inl (Exn OtherException ''No such version'')),
       get_all_installed_top_level_modules = [''requests'', ''numpy'', ecole],
       metadata_version =
         (\<lambda>n. if n = ''click'' then Inr ''8.1.3''
              else if n = ''setuptools'' then Inr ''65.5.0''
              else if n = [] then Inl (Exn OtherException ''A distribution name is required'')
              else Inl (Exn PackageNotFoundError n)),
       read_parse =
         (\<lambda>p. if p = ''proj/a.py'' then Inr example_tree
              else if p = ''proj/bad.py'' then Inl (Exn SyntaxError ''invalid syntax'')
              else if p = ''proj/bin.py'' then Inl (Exn UnicodeDecodeError ''invalid start byte'')
              else if p = ''proj/b.py'' then Inr (Other [Import [Alias ''sys'' None]])
              else Inl (Exn OSError ''No such file or directory'')),
       os_walk =
         (\<lambda>p. if p = ''proj''
              then [(''proj'', [], [''bad.py'', ''a.py'', ''notes.txt'', ''bin.py'', ''b.py''])]
              else []),
       open_requirements = None,
       write_error = (\<lambda>f s. None),
       close_error = (\<lambda>f. None),
       unicode_lower = example_unicode_lower \<rparr>"

text \<open>
  The same environment where the only installed distribution is \<^verbatim>\<open>distribute\<close>, which
  provides the module \<^verbatim>\<open>pkg_resources\<close>; \<^verbatim>\<open>setuptools\<close> is not installed.
\<close>

definition pkg_resources_env :: env where
  "pkg_resources_env =
     example_env \<lparr> get_all_installed_top_level_modules := [''pkg_resources''],
                   metadata_version :=
                     (\<lambda>n. if n = ''distribute'' then Inr ''0.6.49''
                          else Inl (Exn PackageNotFoundError n)) \<rparr>"

text \<open>
  The example directory with the files \<^verbatim>\<open>deep.py\<close> and \<^verbatim>\<open>b.py\<close>. The first is the
  text \<^verbatim>\<open>x = 1\<close> followed by twenty thousand times \<^verbatim>\<open>+1\<close>: it decodes, and
  \<^verbatim>\<open>ast.parse\<close> of CPython 3.11 gives up on it with a \<^verbatim>\<open>RecursionError\<close>.
\<close>

definition deep_env :: env where
  "deep_env =
     example_env \<lparr> read_parse :=
                     (\<lambda>p. if p = ''proj/deep.py''
                          then Inl (Exn RecursionError
                                 ''maximum recursion depth exceeded during ast construction'')
                          else read_parse example_env p),
                   os_walk :=
                     (\<lambda>p. if p = ''proj'' then [(''proj'', [], [''deep.py'', ''b.py''])]
                          else []) \<rparr>"

text \<open>
  The example environment where \<^verbatim>\<open>requirements.txt\<close> is opened with the ASCII encoding:
  writing a string with any other character raises \<^verbatim>\<open>UnicodeEncodeError\<close>.
\<close>

definition ascii_file_env :: env where
  "ascii_file_env =
     example_env \<lparr> write_error :=
                     (\<lambda>f s. if is_ascii s then None
                            else Some (Exn UnicodeEncodeError
                                   ''ascii codec cannot encode character'')) \<rparr>"

section \<open>Properties\<close>

subsection \<open>Strings\<close>

lemma ascii_lower_char_idem: "ascii_lower_char (ascii_lower_char c) = ascii_lower_char c"
  by (simp add: ascii_lower_char_def Let_def)

lemma is_ascii_lower: "is_ascii s \<Longrightarrow> is_ascii (map ascii_lower_char s)"
  by (induction s) (auto simp add: is_ascii_def ascii_lower_char_def Let_def)

text \<open>On ASCII strings, lowering twice is lowering once, whatever the environment.\<close>

lemma lower_idem_ascii: "is_ascii s \<Longrightarrow> lower env (lower env s) = lower env s"
  by (simp add: lower_def is_ascii_lower ascii_lower_char_idem)

lemma split_on_nonempty: "split_on sep s \<noteq> []"
  by (induction s) (auto split: list.splits)

text \<open>The equations that evaluate the oracles on a concrete environment.\<close>

lemmas oracle_defs = is_stdlib_def is_installed_package_def installed_lookup_def
  is_local_module_def resolve_alias_def SUBMODULE_TO_PACKAGE_def lower_def is_ascii_def
  ascii_lower_char_def Ecole_def ecole_def Let_def char_of_def bit_iff_odd

subsection \<open>The classifier\<close>

lemma classify_loop_members:
  "classify_loop env ms (a, b, c) = (a', b', c') \<Longrightarrow>
     a' = a \<union> {m \<in> set ms. classify_branch env m = ToStdlib} \<and>
     b' = b \<union> {m \<in> set ms. classify_branch env m = ToThirdParty \<or> classify_branch env m = Fallback} \<and>
     c' = c \<union> {m \<in> set ms. classify_branch env m = ToLocal}"
proof (induction ms arbitrary: a b c)
  case Nil
  then show ?case by simp
next
  case (Cons m ms)
  show ?case
  proof (cases "classify_branch env m")
    case ToStdlib
    with Cons.prems have "classify_loop env ms (insert m a, b, c) = (a', b', c')" by simp
    from Cons.IH [OF this] ToStdlib show ?thesis by auto
  next
    case ToThirdParty
    with Cons.prems have "classify_loop env ms (a, insert m b, c) = (a', b', c')" by simp
    from Cons.IH [OF this] ToThirdParty show ?thesis by auto
  next
    case ToLocal
    with Cons.prems have "classify_loop env ms (a, b, insert m c) = (a', b', c')" by simp
    from Cons.IH [OF this] ToLocal show ?thesis by auto
  next
    case Fallback
    with Cons.prems have "classify_loop env ms (a, insert m b, c) = (a', b', c')" by simp
    from Cons.IH [OF this] Fallback show ?thesis by auto
  qed
qed

lemma classify_imports_members:
  assumes "classify_imports env ms = (stdlib, third_party, local)"
  shows "stdlib = {m \<in> set ms. classify_branch env m = ToStdlib}"
    and "third_party =
           {m \<in> set ms. classify_branch env m = ToThirdParty \<or> classify_branch env m = Fallback}"
    and "local = {m \<in> set ms. classify_branch env m = ToLocal}"
  using classify_loop_members [of env ms "{}" "{}" "{}" stdlib third_party local] assms
  by (simp_all add: classify_imports_def)


subsection \<open>Claims about the classifier\<close>

text \<open>
  C1. For every input set of module names, \<open>classify_imports\<close> returns three sets that are
  pairwise disjoint and whose union is the input set: every discovered name is in exactly
  one of them. The names are given in the order the loop visits them, whatever it is.
\<close>

theorem classify_imports_partition:
  "(case classify_imports env ms of (stdlib, third_party, local) \<Rightarrow>
      stdlib \<union> third_party \<union> local = set ms \<and>
      stdlib \<inter> third_party = {} \<and> stdlib \<inter> local = {} \<and> third_party \<inter> local = {})"
proof -
  obtain a b c where r: "classify_imports env ms = (a, b, c)"
    by (cases "classify_imports env ms") auto
  note mem = classify_imports_members [OF r]
  have total: "\<And>m. classify_branch env m = ToStdlib \<or> classify_branch env m = ToThirdParty
      \<or> classify_branch env m = Fallback \<or> classify_branch env m = ToLocal"
    by (metis branch.exhaust)
  have "a \<union> b \<union> c = set ms"
    using total unfolding mem by blast
  moreover have "a \<inter> b = {}" "a \<inter> c = {}" "b \<inter> c = {}"
    unfolding mem by auto
  ultimately show ?thesis by (simp add: r)
qed

theorem classify_imports_partition_witness:
  "classify_imports example_env [''os'', ''requests'', ''mymod'', ''click'']
     = ({''os''}, {''requests'', ''click''}, {''mymod''}) \<and>
   {''os''} \<union> {''requests'', ''click''} \<union> {''mymod''}
     = set [''os'', ''requests'', ''mymod'', ''click'']"
  using classify_imports_partition [where env = example_env and ms = "[''os'', ''requests'', ''mymod'', ''click'']"]
  by (simp add: classify_imports_def classify_branch_def oracle_defs example_env_def
      insert_commute)

text \<open>
  C2. For every module name in the input, the first match wins: a name the standard
  library oracle accepts goes to stdlib; otherwise a name the installed-package oracle
  accepts goes to third party; otherwise the name, being neither, goes to local.
\<close>

theorem classify_imports_precedence:
  assumes "m \<in> set ms"
      and "classify_imports env ms = (stdlib, third_party, local)"
  shows "(fst (is_stdlib env m) \<longrightarrow> m \<in> stdlib \<and> m \<notin> third_party \<and> m \<notin> local) \<and>
         (\<not> fst (is_stdlib env m) \<and> fst (is_installed_package env m) \<longrightarrow>
            m \<notin> stdlib \<and> m \<in> third_party \<and> m \<notin> local) \<and>
         (\<not> fst (is_stdlib env m) \<and> \<not> fst (is_installed_package env m) \<longrightarrow>
            m \<notin> stdlib \<and> m \<notin> third_party \<and> m \<in> local)"
  unfolding classify_imports_members [OF assms(2)]
  using assms(1) by (simp add: classify_branch_def is_local_module_def)

theorem classify_imports_precedence_witness:
  "classify_imports example_env [''os'', ''requests'', ''mymod'']
     = ({''os''}, {''requests''}, {''mymod''}) \<and>
   fst (is_stdlib example_env ''os'') \<and>
   \<not> fst (is_stdlib example_env ''requests'') \<and>
   fst (is_installed_package example_env ''requests'') \<and>
   \<not> fst (is_stdlib example_env ''mymod'') \<and>
   \<not> fst (is_installed_package example_env ''mymod'') \<and>
   ''os'' \<in> {''os''} \<and> ''requests'' \<in> {''requests''} \<and> ''mymod'' \<in> {''mymod''}"
proof -
  let ?ms = "[''os'', ''requests'', ''mymod'']"
  have r: "classify_imports example_env ?ms = ({''os''}, {''requests''}, {''mymod''})"
    by (simp add: classify_imports_def classify_branch_def oracle_defs example_env_def)
  have "''os'' \<in> set ?ms" "''requests'' \<in> set ?ms" "''mymod'' \<in> set ?ms"
    by simp_all
  from this [THEN classify_imports_precedence, OF r] r show ?thesis
    by (simp add: oracle_defs example_env_def)
qed

text \<open>
  C3. The final \<^verbatim>\<open>else\<close> of the conditional in \<open>classify_imports\<close> is never taken: for
  every module name that is not stdlib and not installed, \<open>is_local_module\<close> returns true.
\<close>

theorem fallback_unreachable:
  "classify_branch env m \<noteq> Fallback \<and>
   (\<not> fst (is_stdlib env m) \<and> \<not> fst (is_installed_package env m) \<longrightarrow> is_local_module env m)"
  by (simp add: classify_branch_def is_local_module_def)

theorem fallback_unreachable_witness:
  "\<not> fst (is_stdlib example_env ''mymod'') \<and>
   \<not> fst (is_installed_package example_env ''mymod'') \<and>
   is_local_module example_env ''mymod'' \<and>
   classify_branch example_env ''mymod'' = ToLocal"
  using fallback_unreachable [where env = example_env and m = "''mymod''"]
  by (simp add: classify_branch_def oracle_defs example_env_def)


subsection \<open>Claims about the oracles\<close>

text \<open>The oracle reads its argument through \<open>lower\<close> only.\<close>

lemma installed_lookup_lower:
  "lower env a = lower env b \<Longrightarrow> installed_lookup env a = installed_lookup env b"
  by (simp add: installed_lookup_def)

lemma is_installed_package_lower:
  "lower env a = lower env b \<Longrightarrow>
     fst (is_installed_package env a) = fst (is_installed_package env b)"
  by (simp add: is_installed_package_def installed_lookup_lower [of env a b] split: sum.splits)

text \<open>
  C6. The installed-package check does not depend on the case of its argument: two names
  with the same lowercase form get the same answer, and are classified alike when the
  standard library check rejects both. A name and its lowercase form get the same answer
  wherever \<^verbatim>\<open>str.lower\<close> leaves a lowercase form as it is, which is so for every ASCII
  name in every environment (for the other names it is a property of the runtime's
  \<^verbatim>\<open>str.lower\<close>). The standard library check is exact membership in the table: a name
  that differs from a table entry in case only is not stdlib.
\<close>

theorem installed_case_insensitive_stdlib_exact:
  "(lower env a = lower env b \<longrightarrow>
      fst (is_installed_package env a) = fst (is_installed_package env b)) \<and>
   (lower env (lower env name) = lower env name \<longrightarrow>
      fst (is_installed_package env name) = fst (is_installed_package env (lower env name))) \<and>
   (is_ascii name \<longrightarrow>
      fst (is_installed_package env name) = fst (is_installed_package env (lower env name))) \<and>
   (fst (is_stdlib env name) \<longleftrightarrow>
      (case stdlib_list env (version_info env) of Inr names \<Rightarrow> name \<in> set names | Inl e \<Rightarrow> False)) \<and>
   (lower env a = lower env b \<and> \<not> fst (is_stdlib env a) \<and> \<not> fst (is_stdlib env b) \<longrightarrow>
      classify_branch env a = classify_branch env b)"
proof -
  have same: "fst (is_installed_package env x) = fst (is_installed_package env y)"
    if "lower env x = lower env y" for x y
    using that by (rule is_installed_package_lower)
  have idem: "fst (is_installed_package env name) = fst (is_installed_package env (lower env name))"
    if "lower env (lower env name) = lower env name"
    using that by (intro same) simp
  have ascii: "fst (is_installed_package env name) = fst (is_installed_package env (lower env name))"
    if "is_ascii name"
    using that by (intro idem lower_idem_ascii)
  have std: "fst (is_stdlib env name) \<longleftrightarrow>
      (case stdlib_list env (version_info env) of Inr names \<Rightarrow> name \<in> set names | Inl e \<Rightarrow> False)"
    by (simp add: is_stdlib_def split: sum.splits)
  have branch: "classify_branch env a = classify_branch env b"
    if "lower env a = lower env b" "\<not> fst (is_stdlib env a)" "\<not> fst (is_stdlib env b)"
    using same [OF that(1)] that(2,3) by (simp add: classify_branch_def is_local_module_def)
  from same idem ascii std branch show ?thesis by blast
qed

theorem installed_case_insensitive_stdlib_exact_witness:
  "lower example_env ''NumPy'' = ''numpy'' \<and> lower example_env ''numpy'' = ''numpy'' \<and>
   is_ascii ''NumPy'' \<and>
   fst (is_installed_package example_env ''NumPy'') \<and>
   fst (is_installed_package example_env ''numpy'') \<and>
   classify_branch example_env ''NumPy'' = ToThirdParty \<and>
   classify_branch example_env ''numpy'' = ToThirdParty \<and>
   lower example_env Ecole = ecole \<and> lower example_env ecole = ecole \<and>
   fst (is_installed_package example_env Ecole) \<and>
   fst (is_installed_package example_env ecole) \<and>
   fst (is_stdlib example_env ''os'') \<and> \<not> fst (is_stdlib example_env ''OS'') \<and>
   lower example_env ''OS'' = ''os''"
proof -
  have l: "lower example_env ''NumPy'' = ''numpy''" "lower example_env ''numpy'' = ''numpy''"
    "lower example_env Ecole = ecole" "lower example_env ecole = ecole"
    "lower example_env ''OS'' = ''os''" "is_ascii ''NumPy''"
    by (simp_all add: oracle_defs example_env_def)
  have i: "fst (is_installed_package example_env ''numpy'')"
    "fst (is_installed_package example_env ecole)"
    by (simp_all add: oracle_defs example_env_def)
  have s: "\<not> fst (is_stdlib example_env ''NumPy'')" "\<not> fst (is_stdlib example_env ''numpy'')"
    "fst (is_stdlib example_env ''os'')" "\<not> fst (is_stdlib example_env ''OS'')"
    by (simp_all add: is_stdlib_def example_env_def)
  from installed_case_insensitive_stdlib_exact
      [where env = example_env and a = "''NumPy''" and b = "''numpy''" and name = "''NumPy''"]
    installed_case_insensitive_stdlib_exact
      [where env = example_env and a = Ecole and b = ecole and name = Ecole]
    l i s
  show ?thesis
    by (simp add: classify_branch_def is_local_module_def)
qed

text \<open>
  C7. The installed-package oracle first looks the lowercase name up in the installed
  module index, itself in lowercase, and answers true when it is there. Otherwise it
  resolves the lowercase name through the alias table (unmapped names stay as they are)
  and asks for the version of the result: a version means true; "package not found" means
  false and logs nothing; any other exception means false and one warning. Whenever the
  answer is true, nothing was logged.
\<close>

theorem is_installed_package_order:
  "(lower env name \<in> set (map (lower env) (get_all_installed_top_level_modules env)) \<longrightarrow>
      is_installed_package env name = (True, [])) \<and>
   (lower env name \<notin> set (map (lower env) (get_all_installed_top_level_modules env)) \<longrightarrow>
      (case metadata_version env (resolve_alias (lower env name)) of
         Inr v \<Rightarrow> is_installed_package env name = (True, [])
       | Inl e \<Rightarrow>
           if cls e = PackageNotFoundError then is_installed_package env name = (False, [])
           else is_installed_package env name = (False, [(WARNING, InstalledCheckError name e)]))) \<and>
   (fst (is_installed_package env name) \<longrightarrow> snd (is_installed_package env name) = [])"
  by (simp add: is_installed_package_def installed_lookup_def Let_def split: sum.splits)

theorem is_installed_package_order_witness:
  "is_installed_package example_env ''Requests'' = (True, []) \<and>
   lower example_env Ecole \<in> set (map (lower example_env)
                                      (get_all_installed_top_level_modules example_env)) \<and>
   is_installed_package example_env Ecole = (True, []) \<and>
   is_installed_package example_env ''click'' = (True, []) \<and>
   resolve_alias (lower example_env ''pkg_resources'') = ''setuptools'' \<and>
   is_installed_package example_env ''pkg_resources'' = (True, []) \<and>
   is_installed_package example_env ''mymod'' = (False, []) \<and>
   is_installed_package example_env []
     = (False, [(WARNING, InstalledCheckError []
                   (Exn OtherException ''A distribution name is required''))])"
  using is_installed_package_order [where env = example_env and name = "''Requests''"]
    is_installed_package_order [where env = example_env and name = Ecole]
    is_installed_package_order [where env = example_env and name = "''click''"]
    is_installed_package_order [where env = example_env and name = "''pkg_resources''"]
    is_installed_package_order [where env = example_env and name = "''mymod''"]
    is_installed_package_order [where env = example_env and name = "[]"]
  by (simp add: oracle_defs example_env_def)

text \<open>The alias table has one entry, and its key is ASCII and already lowercase.\<close>

lemma alias_table_entries:
  "SUBMODULE_TO_PACKAGE name = Some target \<Longrightarrow>
     name = ''pkg_resources'' \<and> target = ''setuptools'' \<and> lower env name = name"
  by (auto simp add: SUBMODULE_TO_PACKAGE_def lower_def is_ascii_def ascii_lower_char_def
      split: if_splits)

text \<open>
  C8, as stated: a name of the alias table is third party exactly when the version lookup
  of its target succeeds. It fails where the index already lists the name: the oracle
  answers true at its first step and never asks for the version of the target.
\<close>

theorem alias_third_party_counterexample:
  "SUBMODULE_TO_PACKAGE ''pkg_resources'' = Some ''setuptools'' \<and>
   \<not> (''pkg_resources'' \<in> fst (snd (classify_imports pkg_resources_env [''pkg_resources'']))
        \<longleftrightarrow> version_lookup_succeeds pkg_resources_env ''setuptools'')"
  by (simp add: classify_imports_def classify_branch_def oracle_defs version_lookup_succeeds_def
      pkg_resources_env_def example_env_def)

text \<open>
  C8, amended. For a name of the alias table that the standard library oracle rejects: if
  its lowercase form is in the installed module index it is third party, whatever the
  version lookup says; otherwise it is third party if and only if the version lookup of
  its target succeeds.
\<close>

theorem alias_third_party_amended:
  assumes "SUBMODULE_TO_PACKAGE name = Some target"
      and "name \<in> set ms"
      and "\<not> fst (is_stdlib env name)"
      and "classify_imports env ms = (stdlib, third_party, local)"
  shows "(lower env name \<in> set (map (lower env) (get_all_installed_top_level_modules env)) \<longrightarrow>
            name \<in> third_party) \<and>
         (lower env name \<notin> set (map (lower env) (get_all_installed_top_level_modules env)) \<longrightarrow>
            (name \<in> third_party \<longleftrightarrow> version_lookup_succeeds env target))"
proof -
  from alias_table_entries [OF assms(1)] have ln: "lower env name = name"
    by blast
  have res: "resolve_alias (lower env name) = target"
    by (simp add: resolve_alias_def ln assms(1))
  have tp: "name \<in> third_party \<longleftrightarrow> fst (is_installed_package env name)"
    unfolding classify_imports_members [OF assms(4)]
    using assms(2,3) by (simp add: classify_branch_def is_local_module_def)
  have "fst (is_installed_package env name) \<longleftrightarrow>
      lower env name \<in> set (map (lower env) (get_all_installed_top_level_modules env)) \<or>
      version_lookup_succeeds env target"
    using res
    by (auto simp add: is_installed_package_def installed_lookup_def Let_def
        version_lookup_succeeds_def split: sum.splits)
  with tp show ?thesis by blast
qed

theorem alias_third_party_amended_witness:
  "SUBMODULE_TO_PACKAGE ''pkg_resources'' = Some ''setuptools'' \<and>
   \<not> fst (is_stdlib example_env ''pkg_resources'') \<and>
   lower example_env ''pkg_resources''
     \<notin> set (map (lower example_env) (get_all_installed_top_level_modules example_env)) \<and>
   classify_imports example_env [''pkg_resources''] = ({}, {''pkg_resources''}, {}) \<and>
   version_lookup_succeeds example_env ''setuptools'' \<and>
   lower pkg_resources_env ''pkg_resources''
     \<in> set (map (lower pkg_resources_env)
              (get_all_installed_top_level_modules pkg_resources_env)) \<and>
   classify_imports pkg_resources_env [''pkg_resources''] = ({}, {''pkg_resources''}, {}) \<and>
   \<not> version_lookup_succeeds pkg_resources_env ''setuptools''"
proof -
  have a: "SUBMODULE_TO_PACKAGE ''pkg_resources'' = Some ''setuptools''"
    by (simp add: SUBMODULE_TO_PACKAGE_def)
  have m: "''pkg_resources'' \<in> set [''pkg_resources'']" by simp
  have s1: "\<not> fst (is_stdlib example_env ''pkg_resources'')"
    by (simp add: is_stdlib_def example_env_def)
  have s2: "\<not> fst (is_stdlib pkg_resources_env ''pkg_resources'')"
    by (simp add: is_stdlib_def pkg_resources_env_def example_env_def)
  have c1: "classify_imports example_env [''pkg_resources''] = ({}, {''pkg_resources''}, {})"
    by (simp add: classify_imports_def classify_branch_def oracle_defs example_env_def)
  have c2: "classify_imports pkg_resources_env [''pkg_resources''] = ({}, {''pkg_resources''}, {})"
    by (simp add: classify_imports_def classify_branch_def oracle_defs pkg_resources_env_def
        example_env_def)
  from alias_third_party_amended [OF a m s1 c1] alias_third_party_amended [OF a m s2 c2]
    a s1 c1 c2
  show ?thesis
    by (simp add: oracle_defs version_lookup_succeeds_def pkg_resources_env_def example_env_def)
qed

subsection \<open>First segments\<close>

lemma split_on_head:
  "(case split_on sep s of [] \<Rightarrow> [] | w # ws \<Rightarrow> w) = takeWhile (\<lambda>c. c \<noteq> sep) s"
  by (induction s) (auto split: list.splits)

lemma first_segment_takeWhile: "first_segment s = takeWhile (\<lambda>c. c \<noteq> CHR ''.'') s"
  by (simp add: first_segment_def split_on_head)

lemma first_segment_dotted:
  "CHR ''.'' \<notin> set a \<Longrightarrow> first_segment (a @ CHR ''.'' # b) = a"
  by (simp add: first_segment_takeWhile takeWhile_append)

lemma first_segment_no_dot: "CHR ''.'' \<notin> set (first_segment s)"
  by (auto simp add: first_segment_takeWhile dest: set_takeWhileD)

subsection \<open>The extractor\<close>

lemma fold_insert_names:
  "fold (\<lambda>a acc. insert (f a) acc) names S = S \<union> {f a | a. a \<in> set names}"
  by (induction names arbitrary: S) auto

lemma add_imports_names: "add_imports n S = S \<union> names_of_node n"
  by (cases n) (auto simp add: names_of_node_def fold_insert_names split: option.splits)

lemma fold_add_imports: "fold add_imports ns S = S \<union> (\<Union>n \<in> set ns. names_of_node n)"
  by (induction ns arbitrary: S) (auto simp add: add_imports_names)

lemma extract_parsed:
  "read_parse env p = Inr tree \<Longrightarrow>
     extract_imports_from_file env p = Inr (\<Union>n \<in> set (walk tree). names_of_node n, [])"
  by (simp add: extract_imports_from_file_def fold_add_imports)

lemma extract_caught:
  "read_parse env p = Inl e \<Longrightarrow> caught_by_extractor e \<Longrightarrow>
     extract_imports_from_file env p = Inr ({}, [(ERROR, Skipping p e)])"
  by (auto simp add: extract_imports_from_file_def caught_by_extractor_def)

text \<open>
  C4. For every file that can be read and parsed, the extractor returns the first dotted
  segments of the names of the plain import statements and of the module parts of the
  from-import statements, anywhere in the tree, and logs nothing. The first segment of a
  dotted path is the text before its first dot; a from-import without a module part
  (\<^verbatim>\<open>from . import x\<close>) adds nothing.
\<close>

theorem extract_imports_first_segments:
  assumes "read_parse env p = Inr tree"
  shows "extract_imports_from_file env p =
           Inr ({first_segment (alias_name a) | a names. Import names \<in> set (walk tree) \<and> a \<in> set names}
                \<union> {first_segment m | m names level.
                      ImportFrom (Some m) names level \<in> set (walk tree) \<and> m \<noteq> []},
                [])
         \<and> first_segment s = takeWhile (\<lambda>c. c \<noteq> CHR ''.'') s
         \<and> add_imports (ImportFrom None names' level') imports = imports"
proof -
  have "(\<Union>n \<in> set (walk tree). names_of_node n) =
        {first_segment (alias_name a) | a names. Import names \<in> set (walk tree) \<and> a \<in> set names}
          \<union> {first_segment m | m names level.
                ImportFrom (Some m) names level \<in> set (walk tree) \<and> m \<noteq> []}"
    (is "?L = ?A \<union> ?B")
  proof (rule set_eqI)
    fix x
    show "x \<in> ?L \<longleftrightarrow> x \<in> ?A \<union> ?B"
    proof
      assume "x \<in> ?L"
      then obtain n where n: "n \<in> set (walk tree)" "x \<in> names_of_node n" by blast
      show "x \<in> ?A \<union> ?B"
      proof (cases n)
        case (Import names)
        with n have "Import names \<in> set (walk tree)"
          and "\<exists>a. a \<in> set names \<and> x = first_segment (alias_name a)"
          by (auto simp add: names_of_node_def)
        then show ?thesis by blast
      next
        case (ImportFrom module_part names level)
        with n obtain m where "module_part = Some m" "m \<noteq> []" "x = first_segment m"
          by (auto simp add: names_of_node_def split: option.splits if_splits)
        with n(1) ImportFrom show ?thesis by blast
      next
        case (Other children)
        with n show ?thesis by (simp add: names_of_node_def)
      qed
    next
      assume "x \<in> ?A \<union> ?B"
      then show "x \<in> ?L"
      proof
        assume "x \<in> ?A"
        then obtain a names where "Import names \<in> set (walk tree)" "a \<in> set names"
          "x = first_segment (alias_name a)" by blast
        then show ?thesis
          by (intro UN_I [of "Import names"]) (auto simp add: names_of_node_def)
      next
        assume "x \<in> ?B"
        then obtain m names level where "ImportFrom (Some m) names level \<in> set (walk tree)"
          "m \<noteq> []" "x = first_segment m" by blast
        then show ?thesis
          by (intro UN_I [of "ImportFrom (Some m) names level"]) (auto simp add: names_of_node_def)
      qed
    qed
  qed
  with extract_parsed [OF assms] show ?thesis
    by (simp add: first_segment_takeWhile)
qed

theorem extract_imports_first_segments_witness:
  "read_parse example_env ''proj/a.py'' = Inr example_tree \<and>
   extract_imports_from_file example_env ''proj/a.py''
     = Inr ({''utils'', ''requests'', ''foo'', ''os''}, []) \<and>
   first_segment ''foo.bar.baz'' = ''foo''"
proof -
  have r: "read_parse example_env ''proj/a.py'' = Inr example_tree"
    by (simp add: example_env_def)
  have "extract_imports_from_file example_env ''proj/a.py''
      = Inr ({''utils'', ''requests'', ''foo'', ''os''}, [])"
    by (simp add: extract_imports_from_file_def r example_tree_def first_segment_def)
  with extract_imports_first_segments [OF r, of "''foo.bar.baz''"] r show ?thesis
    by simp
qed


text \<open>
  C10. The level of a from-import is never read: a relative from-import that names a
  module (\<^verbatim>\<open>from .utils import x\<close>) adds the first segment of that module as an absolute
  one would, and the name is in the result for the file. A from-import adds nothing only
  when its module part is absent (or empty).
\<close>

theorem relative_from_import_counted:
  "add_imports (ImportFrom module_part names level) acc
     = add_imports (ImportFrom module_part names 0) acc \<and>
   (m \<noteq> [] \<longrightarrow>
      add_imports (ImportFrom (Some m) names level) acc = insert (first_segment m) acc) \<and>
   (read_parse env p = Inr tree \<and> ImportFrom (Some m) names level \<in> set (walk tree) \<and> m \<noteq> []
      \<longrightarrow> first_segment m \<in> file_names env p) \<and>
   (add_imports (ImportFrom module_part names level) {} = {}
      \<longleftrightarrow> module_part = None \<or> module_part = Some [])"
proof -
  have "first_segment m \<in> file_names env p"
    if "read_parse env p = Inr tree" "ImportFrom (Some m) names level \<in> set (walk tree)" "m \<noteq> []"
  proof -
    from that(3) have "first_segment m \<in> names_of_node (ImportFrom (Some m) names level)"
      by (simp add: names_of_node_def)
    with that(2) have "first_segment m \<in> (\<Union>n \<in> set (walk tree). names_of_node n)"
      by blast
    then show ?thesis
      by (simp add: file_names_def extract_parsed [OF that(1)])
  qed
  then show ?thesis
    by (auto split: option.splits)
qed

theorem relative_from_import_counted_witness:
  "read_parse example_env ''proj/a.py'' = Inr example_tree \<and>
   ImportFrom (Some ''utils.text'') [Alias ''x'' None] 1 \<in> set (walk example_tree) \<and>
   first_segment ''utils.text'' = ''utils'' \<and>
   ''utils'' \<in> file_names example_env ''proj/a.py'' \<and>
   add_imports (ImportFrom (Some ''utils'') [Alias ''x'' None] 1) {} = {''utils''} \<and>
   add_imports (ImportFrom None [Alias ''utils'' None] 1) {} = {}"
proof -
  have r: "read_parse example_env ''proj/a.py'' = Inr example_tree"
    by (simp add: example_env_def)
  have w: "ImportFrom (Some ''utils.text'') [Alias ''x'' None] 1 \<in> set (walk example_tree)"
    by (simp add: example_tree_def)
  have f: "first_segment ''utils.text'' = ''utils''" "first_segment ''utils'' = ''utils''"
    by (simp_all add: first_segment_def)
  from relative_from_import_counted [where env = example_env and p = "''proj/a.py''"
      and tree = example_tree and m = "''utils.text''" and names = "[Alias ''x'' None]"
      and level = 1 and module_part = None and acc = "{}"]
    relative_from_import_counted [where m = "''utils''" and names = "[Alias ''x'' None]"
      and level = 1 and acc = "{}" and module_part = None]
    r w f
  show ?thesis by simp
qed

subsection \<open>The scan\<close>

text \<open>
  When no file raises an exception the extractor lets through, the loops return the union
  of what the files contribute and the concatenation of their diagnostics.
\<close>

lemma scan_files_result:
  assumes "\<forall>file \<in> set files. endswith file ''.py'' \<longrightarrow>
             (\<forall>e. read_parse env (path_join root file) = Inl e \<longrightarrow> caught_by_extractor e)"
  shows "scan_files env root files (all_imports, lg) =
           Inr (all_imports \<union> (\<Union>p \<in> set (map (path_join root)
                                    (filter (\<lambda>file. endswith file ''.py'') files)). file_names env p),
                lg @ concat (map (file_log env)
                       (map (path_join root) (filter (\<lambda>file. endswith file ''.py'') files))))"
  using assms
proof (induction files arbitrary: all_imports lg)
  case Nil
  then show ?case by simp
next
  case (Cons f fs)
  show ?case
  proof (cases "endswith f ''.py''")
    case False
    with Cons show ?thesis by simp
  next
    case True
    obtain names lg' where ex: "extract_imports_from_file env (path_join root f) = Inr (names, lg')"
    proof (cases "read_parse env (path_join root f)")
      case (Inl e)
      with Cons.prems True have "caught_by_extractor e" by simp
      from extract_caught [OF Inl this] that show ?thesis by blast
    next
      case (Inr tree)
      from extract_parsed [OF this] that show ?thesis by blast
    qed
    from Cons.prems have rest: "\<forall>file \<in> set fs. endswith file ''.py'' \<longrightarrow>
        (\<forall>e. read_parse env (path_join root file) = Inl e \<longrightarrow> caught_by_extractor e)"
      by simp
    show ?thesis
      using True ex Cons.IH [OF rest, of "all_imports \<union> names" "lg @ lg'"]
      by (simp add: file_names_def file_log_def Un_assoc)
  qed
qed


lemma scan_walk_result:
  assumes "\<forall>p \<in> set (walk_files triples). \<forall>e. read_parse env p = Inl e \<longrightarrow> caught_by_extractor e"
  shows "scan_walk env triples (all_imports, lg) =
           Inr (all_imports \<union> (\<Union>p \<in> set (walk_files triples). file_names env p),
                lg @ concat (map (file_log env) (walk_files triples)))"
  using assms
proof (induction triples arbitrary: all_imports lg)
  case Nil
  then show ?case by simp
next
  case (Cons t ts)
  obtain root dirs fs where t: "t = (root, dirs, fs)" by (cases t) auto
  from Cons.prems have here: "\<forall>file \<in> set fs. endswith file ''.py'' \<longrightarrow>
      (\<forall>e. read_parse env (path_join root file) = Inl e \<longrightarrow> caught_by_extractor e)"
    unfolding t by auto
  from Cons.prems have rest: "\<forall>p \<in> set (walk_files ts).
      \<forall>e. read_parse env p = Inl e \<longrightarrow> caught_by_extractor e"
    unfolding t by auto
  show ?case
    unfolding t
    by (simp add: scan_files_result [OF here] Cons.IH [OF rest] Un_assoc)
qed

text \<open>An exception of any other class leaves the extractor and ends the scan.\<close>

lemma scan_files_uncaught:
  "endswith f ''.py'' \<Longrightarrow> read_parse env (path_join root f) = Inl e \<Longrightarrow>
     \<not> caught_by_extractor e \<Longrightarrow> scan_files env root (f # fs) (all_imports, lg) = Inl e"
  by (simp add: extract_imports_from_file_def caught_by_extractor_def)

text \<open>
  What the handler does cover: a file whose reading or parsing raises
  \<^verbatim>\<open>UnicodeDecodeError\<close> or \<^verbatim>\<open>SyntaxError\<close> makes the extractor return the empty set and
  log one error, and the scan goes on with the remaining files, its set of names
  unchanged. A scan in which every failure is one the extractor catches returns the names
  of all its files and every diagnostic.
\<close>

lemma scan_caught_failures:
  "(read_parse env p = Inl e \<and> (cls e = SyntaxError \<or> cls e = UnicodeDecodeError) \<longrightarrow>
      extract_imports_from_file env p = Inr ({}, [(ERROR, Skipping p e)])) \<and>
   (endswith f ''.py'' \<and> read_parse env (path_join root f) = Inl e \<and>
    (cls e = SyntaxError \<or> cls e = UnicodeDecodeError) \<longrightarrow>
      scan_files env root (f # fs) (all_imports, lg) =
        scan_files env root fs (all_imports, lg @ [(ERROR, Skipping (path_join root f) e)])) \<and>
   ((\<forall>q \<in> set (py_files env path). \<forall>e'. read_parse env q = Inl e' \<longrightarrow> caught_by_extractor e') \<longrightarrow>
      scan_directory env path =
        Inr (\<Union>q \<in> set (py_files env path). file_names env q,
             (INFO, ScanningDirectory path) # concat (map (file_log env) (py_files env path))
               @ [(DEBUG, TotalUniqueImports
                    (card (\<Union>q \<in> set (py_files env path). file_names env q)))]))"
proof (intro conjI impI)
  assume "read_parse env p = Inl e \<and> (cls e = SyntaxError \<or> cls e = UnicodeDecodeError)"
  then show "extract_imports_from_file env p = Inr ({}, [(ERROR, Skipping p e)])"
    by (auto simp add: extract_imports_from_file_def)
next
  assume "endswith f ''.py'' \<and> read_parse env (path_join root f) = Inl e \<and>
    (cls e = SyntaxError \<or> cls e = UnicodeDecodeError)"
  then show "scan_files env root (f # fs) (all_imports, lg) =
        scan_files env root fs (all_imports, lg @ [(ERROR, Skipping (path_join root f) e)])"
    by (auto simp add: extract_imports_from_file_def)
next
  assume "\<forall>q \<in> set (py_files env path). \<forall>e'. read_parse env q = Inl e' \<longrightarrow> caught_by_extractor e'"
  then have ok: "\<forall>p \<in> set (walk_files (os_walk env path)).
      \<forall>e. read_parse env p = Inl e \<longrightarrow> caught_by_extractor e"
    by (simp add: py_files_def)
  show "scan_directory env path =
        Inr (\<Union>q \<in> set (py_files env path). file_names env q,
             (INFO, ScanningDirectory path) # concat (map (file_log env) (py_files env path))
               @ [(DEBUG, TotalUniqueImports
                    (card (\<Union>q \<in> set (py_files env path). file_names env q)))])"
    by (simp add: scan_directory_def scan_walk_result [OF ok] py_files_def)
qed

text \<open>The example directory, file by file.\<close>

lemma example_py_files:
  "py_files example_env ''proj'' = [''proj/bad.py'', ''proj/a.py'', ''proj/bin.py'', ''proj/b.py'']"
  by (simp add: py_files_def example_env_def endswith_def path_join_def)

lemma example_file_names:
  "file_names example_env ''proj/bad.py'' = {}"
  "file_names example_env ''proj/a.py'' = {''utils'', ''requests'', ''foo'', ''os''}"
  "file_names example_env ''proj/bin.py'' = {}"
  "file_names example_env ''proj/b.py'' = {''sys''}"
  by (simp_all add: file_names_def extract_imports_from_file_def example_env_def example_tree_def
      first_segment_def)

lemma example_file_log:
  "file_log example_env ''proj/bad.py''
     = [(ERROR, Skipping ''proj/bad.py'' (Exn SyntaxError ''invalid syntax''))]"
  "file_log example_env ''proj/a.py'' = []"
  "file_log example_env ''proj/bin.py''
     = [(ERROR, Skipping ''proj/bin.py'' (Exn UnicodeDecodeError ''invalid start byte''))]"
  "file_log example_env ''proj/b.py'' = []"
  by (simp_all add: file_log_def extract_imports_from_file_def example_env_def)

lemma scan_caught_failures_example:
  "read_parse example_env ''proj/bad.py'' = Inl (Exn SyntaxError ''invalid syntax'') \<and>
   extract_imports_from_file example_env ''proj/bad.py''
     = Inr ({}, [(ERROR, Skipping ''proj/bad.py'' (Exn SyntaxError ''invalid syntax''))]) \<and>
   scan_directory example_env ''proj''
     = Inr ({''sys'', ''utils'', ''requests'', ''foo'', ''os''},
            [(INFO, ScanningDirectory ''proj''),
             (ERROR, Skipping ''proj/bad.py'' (Exn SyntaxError ''invalid syntax'')),
             (ERROR, Skipping ''proj/bin.py'' (Exn UnicodeDecodeError ''invalid start byte'')),
             (DEBUG, TotalUniqueImports 5)])"
proof -
  have r: "read_parse example_env ''proj/bad.py'' = Inl (Exn SyntaxError ''invalid syntax'')"
    by (simp add: example_env_def)
  have ok: "\<forall>q \<in> set (py_files example_env ''proj'').
      \<forall>e'. read_parse example_env q = Inl e' \<longrightarrow> caught_by_extractor e'"
    by (simp add: example_py_files) (simp add: example_env_def caught_by_extractor_def)
  have j: "path_join ''proj'' ''bad.py'' = ''proj/bad.py''"
    by (simp add: path_join_def)
  from scan_caught_failures [where env = example_env and p = "''proj/bad.py''"
      and e = "Exn SyntaxError ''invalid syntax''" and path = "''proj''" and root = "''proj''"
      and f = "''bad.py''"] r ok j
  show ?thesis
    by (simp add: example_py_files example_file_names example_file_log endswith_def)
qed

text \<open>
  C5. Every file that cannot be decoded or parsed should give the empty set and a
  diagnostic, and the scan should go on. The code does so only for the three classes its
  handler names. Here the file \<^verbatim>\<open>deep.py\<close> cannot be parsed and \<^verbatim>\<open>ast.parse\<close> raises
  \<^verbatim>\<open>RecursionError\<close>: the exception leaves \<open>extract_imports_from_file\<close> and
  \<open>scan_directory\<close>, no diagnostic is recorded for the file, and the names of \<^verbatim>\<open>b.py\<close>,
  which comes after it, are never collected.
\<close>

theorem scan_aborts_on_unparsable_file:
  "py_files deep_env ''proj'' = [''proj/deep.py'', ''proj/b.py''] \<and>
   read_parse deep_env ''proj/deep.py''
     = Inl (Exn RecursionError ''maximum recursion depth exceeded during ast construction'') \<and>
   extract_imports_from_file deep_env ''proj/deep.py''
     = Inl (Exn RecursionError ''maximum recursion depth exceeded during ast construction'') \<and>
   scan_directory deep_env ''proj''
     = Inl (Exn RecursionError ''maximum recursion depth exceeded during ast construction'') \<and>
   extract_imports_from_file deep_env ''proj/b.py'' = Inr ({''sys''}, [])"
  by (simp add: py_files_def scan_directory_def extract_imports_from_file_def deep_env_def
      example_env_def endswith_def path_join_def first_segment_def)

subsection \<open>The manifest\<close>

text \<open>
  When no write of a manifest line raises, the loop appends one manifest line per
  package, in the order given, and one warning per package whose version lookup raises.
\<close>

lemma write_requirements_lines:
  assumes "\<forall>pkg \<in> set pkgs. \<forall>f. write_error env f (manifest_line env pkg @ [CHR 0x0A]) = None"
  shows "write_requirements env pkgs (f, lg) =
           (None, f @ unlines (map (manifest_line env) pkgs),
            lg @ concat (map (version_warning env) pkgs))"
  using assms
proof (induction pkgs arbitrary: f lg)
  case Nil
  then show ?case by (simp add: unlines_def)
next
  case (Cons pkg pkgs)
  from Cons.prems have w: "write_error env f (manifest_line env pkg @ [CHR 0x0A]) = None"
    by simp
  from Cons.prems have rest:
    "\<forall>pkg \<in> set pkgs. \<forall>f. write_error env f (manifest_line env pkg @ [CHR 0x0A]) = None"
    by simp
  show ?case
  proof (cases "metadata_version env pkg")
    case (Inl e)
    with w show ?thesis
      by (simp add: Cons.IH [OF rest] f_write_def unlines_def manifest_line_def
          version_warning_def)
  next
    case (Inr v)
    with w show ?thesis
      by (simp add: Cons.IH [OF rest] f_write_def unlines_def manifest_line_def
          version_warning_def)
  qed
qed

text \<open>When the file cannot be opened nothing is written and the failure is logged.\<close>

lemma save_requirements_open_fails:
  "open_requirements env = Some e \<Longrightarrow>
     save_requirements env third_party = (None, [(INFO, SavingRequirements), (ERROR, FailedToSave e)])"
  by (simp add: save_requirements_def)

text \<open>
  A write of a bare name that raises ends the loop: the packages after it are not
  written, and the text and the log are those reached before it, with the warning of the
  inner handler.
\<close>

lemma write_requirements_stops:
  "metadata_version env pkg = Inl e \<Longrightarrow> write_error env f (pkg @ [CHR 0x0A]) = Some e' \<Longrightarrow>
     write_requirements env (pkg # pkgs) (f, lg)
       = (Some e', f, lg @ [(WARNING, CouldNotGetVersion pkg e)])"
  by (simp add: f_write_def)

text \<open>
  C9, as stated: for every third-party set the emitter writes one line per package. It
  fails where a write raises after the file was opened. The set holds two installed
  names; the file is opened with the ASCII encoding; the line of \<^verbatim>\<open>click\<close> is written;
  the write of the accented name raises \<^verbatim>\<open>UnicodeEncodeError\<close>, which the outer handler
  logs. The file is left with one line for two packages.
\<close>

theorem save_requirements_counterexample:
  "finite {''click'', ecole} \<and> card {''click'', ecole} = 2 \<and>
   open_requirements ascii_file_env = None \<and>
   sorted_list_of_set {''click'', ecole} = [''click'', ecole] \<and>
   save_requirements ascii_file_env {''click'', ecole}
     = (Some (''click==8.1.3'' @ [CHR 0x0A]),
        [(INFO, SavingRequirements),
         (WARNING, CouldNotGetVersion ecole (Exn PackageNotFoundError ecole)),
         (ERROR, FailedToSave (Exn UnicodeEncodeError ''ascii codec cannot encode character''))]) \<and>
   fst (save_requirements ascii_file_env {''click'', ecole})
     \<noteq> Some (unlines (map (manifest_line ascii_file_env) (sorted_list_of_set {''click'', ecole})))"
proof -
  have s: "sorted_list_of_set {''click'', ecole} = [''click'', ecole]"
    by (simp add: ecole_def less_eq_char_def less_char_def)
  have c: "card {''click'', ecole} = 2"
    by (simp add: ecole_def)
  have r: "save_requirements ascii_file_env {''click'', ecole}
     = (Some (''click==8.1.3'' @ [CHR 0x0A]),
        [(INFO, SavingRequirements),
         (WARNING, CouldNotGetVersion ecole (Exn PackageNotFoundError ecole)),
         (ERROR, FailedToSave (Exn UnicodeEncodeError ''ascii codec cannot encode character''))])"
    unfolding save_requirements_def s
    by (simp add: f_write_def ascii_file_env_def example_env_def is_ascii_def ecole_def)
  have "unlines (map (manifest_line ascii_file_env) [''click'', ecole])
      = ''click==8.1.3'' @ [CHR 0x0A] @ ecole @ [CHR 0x0A]"
    by (simp add: unlines_def manifest_line_def ascii_file_env_def example_env_def ecole_def)
  with s c r show ?thesis
    by (simp add: ascii_file_env_def example_env_def ecole_def)
qed

text \<open>
  C9, amended. For every (finite) third-party set, when the file can be opened, no write
  of a manifest line raises and the file can be closed, the emitter writes exactly one
  line per package, in ascending lexicographic order of the package names:
  \<^verbatim>\<open>name==version\<close> when the version lookup of the package succeeds, the bare name when
  it fails. It logs one warning per failed lookup and no error.
\<close>

theorem save_requirements_sorted_lines:
  assumes "finite third_party"
      and "open_requirements env = None"
      and "\<forall>pkg \<in> third_party. \<forall>f. write_error env f (manifest_line env pkg @ [CHR 0x0A]) = None"
      and "close_error env (unlines (map (manifest_line env) (sorted_list_of_set third_party))) = None"
  shows "save_requirements env third_party
           = (Some (unlines (map (manifest_line env) (sorted_list_of_set third_party))),
              (INFO, SavingRequirements)
                # concat (map (version_warning env) (sorted_list_of_set third_party))
                @ [(INFO, RequirementsSaved)]) \<and>
         sorted (sorted_list_of_set third_party) \<and>
         distinct (sorted_list_of_set third_party) \<and>
         set (sorted_list_of_set third_party) = third_party \<and>
         length (map (manifest_line env) (sorted_list_of_set third_party)) = card third_party \<and>
         (metadata_version env pkg = Inr v \<longrightarrow> manifest_line env pkg = pkg @ ''=='' @ v) \<and>
         (metadata_version env pkg = Inl e \<longrightarrow> manifest_line env pkg = pkg)"
proof -
  from assms(1,3) have w: "\<forall>pkg \<in> set (sorted_list_of_set third_party).
      \<forall>f. write_error env f (manifest_line env pkg @ [CHR 0x0A]) = None"
    by simp
  have "save_requirements env third_party
      = (Some (unlines (map (manifest_line env) (sorted_list_of_set third_party))),
         (INFO, SavingRequirements)
           # concat (map (version_warning env) (sorted_list_of_set third_party))
           @ [(INFO, RequirementsSaved)])"
    by (simp add: save_requirements_def assms(2) write_requirements_lines [OF w] assms(4))
  moreover have "sorted (sorted_list_of_set third_party)"
    "distinct (sorted_list_of_set third_party)"
    "set (sorted_list_of_set third_party) = third_party"
    "length (map (manifest_line env) (sorted_list_of_set third_party)) = card third_party"
    using assms(1) by simp_all
  ultimately show ?thesis
    by (simp add: manifest_line_def)
qed

theorem save_requirements_sorted_lines_witness:
  "finite {''click''} \<and> open_requirements example_env = None \<and>
   save_requirements example_env {''click''}
     = (Some (''click==8.1.3'' @ [CHR 0x0A]),
        [(INFO, SavingRequirements), (INFO, RequirementsSaved)]) \<and>
   sorted_list_of_set {''requests'', ''click'', ''Flask''} = [''Flask'', ''click'', ''requests''] \<and>
   fst (save_requirements example_env {''requests'', ''click'', ''Flask''})
     = Some (''Flask'' @ [CHR 0x0A] @ ''click==8.1.3'' @ [CHR 0x0A] @ ''requests'' @ [CHR 0x0A]) \<and>
   fst (save_requirements ascii_file_env {''click''}) = Some (''click==8.1.3'' @ [CHR 0x0A])"
proof -
  have fin: "finite {''click''}" "finite {''requests'', ''click'', ''Flask''}"
    by simp_all
  have op: "open_requirements example_env = None" "open_requirements ascii_file_env = None"
    by (simp_all add: ascii_file_env_def example_env_def)
  have s1: "sorted_list_of_set {''click''} = [''click'']"
    by simp
  have s3: "sorted_list_of_set {''requests'', ''click'', ''Flask''} = [''Flask'', ''click'', ''requests'']"
    by (simp add: less_eq_char_def less_char_def)
  have v: "metadata_version example_env ''click'' = Inr ''8.1.3''"
    "metadata_version example_env ''requests'' = Inl (Exn PackageNotFoundError ''requests'')"
    "metadata_version example_env ''Flask'' = Inl (Exn PackageNotFoundError ''Flask'')"
    "metadata_version ascii_file_env ''click'' = Inr ''8.1.3''"
    by (simp_all add: ascii_file_env_def example_env_def)
  have w1: "\<forall>pkg \<in> {''click''}.
      \<forall>f. write_error example_env f (manifest_line example_env pkg @ [CHR 0x0A]) = None"
    and w3: "\<forall>pkg \<in> {''requests'', ''click'', ''Flask''}.
      \<forall>f. write_error example_env f (manifest_line example_env pkg @ [CHR 0x0A]) = None"
    by (simp_all add: example_env_def)
  have wa: "\<forall>pkg \<in> {''click''}.
      \<forall>f. write_error ascii_file_env f (manifest_line ascii_file_env pkg @ [CHR 0x0A]) = None"
    by (simp add: manifest_line_def v ascii_file_env_def is_ascii_def)
  have c1: "close_error example_env
      (unlines (map (manifest_line example_env) (sorted_list_of_set {''click''}))) = None"
    and c3: "close_error example_env (unlines (map (manifest_line example_env)
      (sorted_list_of_set {''requests'', ''click'', ''Flask''}))) = None"
    and ca: "close_error ascii_file_env
      (unlines (map (manifest_line ascii_file_env) (sorted_list_of_set {''click''}))) = None"
    by (simp_all add: ascii_file_env_def example_env_def)
  from save_requirements_sorted_lines [OF fin(1) op(1) w1 c1]
    save_requirements_sorted_lines [OF fin(2) op(1) w3 c3]
    save_requirements_sorted_lines [OF fin(1) op(2) wa ca]
    op s1 s3 v
  show ?thesis
    by (simp add: unlines_def manifest_line_def version_warning_def)
qed

end
